theory Spec2Isabelle
  imports Complex_Main "HOL-Library.Multiset" "HOL-Library.Word"
begin

unbundle bit_operations_syntax

section \<open>Data model (types.ts)\<close>

text \<open>
  The enums of \<^verbatim>\<open>types.ts\<close> are datatypes. \<^verbatim>\<open>CardColor.WILD\<close> and
  \<^verbatim>\<open>CardColor.SKIP\<close> share their spelling with two members of \<^verbatim>\<open>CardType\<close>,
  so the two colours carry the enum's name as a prefix. The interfaces are records; a
  field whose name is used by several interfaces (\<^verbatim>\<open>id\<close>, \<^verbatim>\<open>type\<close>,
  \<^verbatim>\<open>name\<close>, ...) carries the interface as a prefix. A \<^verbatim>\<open>number\<close> that takes part in
  subtraction or comparison is an \<^typ>\<open>int\<close>; array positions are \<^typ>\<open>nat\<close>.
\<close>

datatype CardColor = RED | BLUE | GREEN | YELLOW | CardColor_WILD | CardColor_SKIP

datatype CardType = NUMBER | WILD | SKIP

record Card =
  card_id :: string
  card_type :: CardType
  card_color :: CardColor
  card_value :: int
  card_displayValue :: string

datatype RequirementType = SET | RUN | COLOR

record PhaseRequirement =
  req_type :: RequirementType
  req_count :: int

record Phase =
  phase_id :: int
  phase_name :: string
  phase_description :: string
  requirements :: "PhaseRequirement list"

record Meld =
  meld_id :: string
  meld_cards :: "Card list"
  meld_type :: RequirementType
  meld_ownerId :: string

record Player =
  player_id :: string
  player_name :: string
  isHuman :: bool
  hand :: "Card list"
  melds :: "Meld list"
  phaseIndex :: int
  hasLaidDownPhase :: bool
  score :: int
  isSkipped :: "bool option"

datatype GameState = LOBBY | GENERATING | PLAYING | ROUND_OVER | GAME_OVER

datatype TurnPhase = DRAW | ACTION | DISCARD

section \<open>Meld validation (utils/gameUtils)\<close>

definition isValidSet :: "Card list \<Rightarrow> int \<Rightarrow> bool" where
  "isValidSet cards requiredCount =
     (if int (length cards) < requiredCount then False
      else
        let naturalCards = filter (\<lambda>c. card_type c = NUMBER) cards;
            wilds = filter (\<lambda>c. card_type c = WILD) cards
        in case naturalCards of
             [] \<Rightarrow> True
           | first # _ \<Rightarrow>
               let firstValue = card_value first;
                   allSame = list_all (\<lambda>c. card_value c = firstValue) naturalCards
               in allSame \<and> int (length naturalCards) + int (length wilds) \<ge> requiredCount)"

definition isValidColor :: "Card list \<Rightarrow> int \<Rightarrow> bool" where
  "isValidColor cards requiredCount =
     (if int (length cards) < requiredCount then False
      else
        let naturalCards = filter (\<lambda>c. card_type c = NUMBER \<or> card_type c = SKIP) cards;
            wilds = filter (\<lambda>c. card_type c = WILD) cards
        in case naturalCards of
             [] \<Rightarrow> True
           | first # _ \<Rightarrow>
               let firstColor = card_color first;
                   allSame = list_all (\<lambda>c. card_color c = firstColor) naturalCards
               in allSame \<and> int (length naturalCards) + int (length wilds) \<ge> requiredCount)"

text \<open>
  The gap loop of \<^verbatim>\<open>isValidRun\<close> walks the sorted natural cards pairwise with the
  running total \<^verbatim>\<open>neededWilds\<close>. \<^const>\<open>None\<close> is the early \<^verbatim>\<open>return false\<close> on a
  repeated value; \<open>Some n\<close> is the total when the loop runs to its end.
\<close>

fun gapLoop :: "Card list \<Rightarrow> int \<Rightarrow> int option" where
  "gapLoop (a # b # rest) neededWilds =
     (let diff = card_value b - card_value a
      in if diff = 0 then None
         else gapLoop (b # rest) (if diff > 1 then neededWilds + (diff - 1) else neededWilds))"
| "gapLoop _ neededWilds = Some neededWilds"

text \<open>
  \<^verbatim>\<open>Array.prototype.sort\<close> is stable, and so is \<^const>\<open>sort_key\<close> (insertion sort), so
  sorting with the comparator \<^verbatim>\<open>a.value - b.value\<close> is \<open>sort_key card_value\<close>.
\<close>

definition isValidRun :: "Card list \<Rightarrow> int \<Rightarrow> bool" where
  "isValidRun cards requiredCount =
     (if int (length cards) < requiredCount then False
      else
        let naturalCards = sort_key card_value (filter (\<lambda>c. card_type c = NUMBER) cards);
            wildCount = int (length (filter (\<lambda>c. card_type c = WILD) cards))
        in if length naturalCards = 0 then True
           else case gapLoop naturalCards 0 of
                  None \<Rightarrow> False
                | Some neededWilds \<Rightarrow> wildCount \<ge> neededWilds)"

definition checkSingleReq :: "Card list \<Rightarrow> PhaseRequirement \<Rightarrow> bool" where
  "checkSingleReq cards req =
     (case req_type req of
        SET \<Rightarrow> isValidSet cards (req_count req)
      | COLOR \<Rightarrow> isValidColor cards (req_count req)
      | RUN \<Rightarrow> isValidRun cards (req_count req))"

record validation =
  valid :: bool
  groups :: "Card list list option"

text \<open>
  The two-requirement search runs \<^verbatim>\<open>i\<close> from 1 while \<^verbatim>\<open>i < (1 << n) - 1\<close>. The shift
  is a 32-bit operation: the count is taken modulo 32 and the result is read as a signed
  32-bit integer. Inside the loop \<^verbatim>\<open>(i >> j) & 1\<close> converts \<^verbatim>\<open>i\<close> to 32 bits and
  again takes the count modulo 32.
\<close>

definition shiftOne :: "nat \<Rightarrow> int" where
  "shiftOne n = sint (push_bit (n mod 32) (1 :: 32 word))"

definition bitSet :: "int \<Rightarrow> nat \<Rightarrow> bool" where
  "bitSet i j = (drop_bit (j mod 32) (word_of_int i :: 32 word) AND 1 \<noteq> 0)"

definition splitGroups :: "int \<Rightarrow> Card list \<Rightarrow> Card list \<times> Card list" where
  "splitGroups i cards =
     (map (\<lambda>j. cards ! j) (filter (\<lambda>j. bitSet i j) [0..<length cards]),
      map (\<lambda>j. cards ! j) (filter (\<lambda>j. \<not> bitSet i j) [0..<length cards]))"

fun searchSplits ::
  "int list \<Rightarrow> Card list \<Rightarrow> PhaseRequirement \<Rightarrow> PhaseRequirement \<Rightarrow> validation option" where
  "searchSplits [] cards r0 r1 = None"
| "searchSplits (i # rest) cards r0 r1 =
     (let (group1, group2) = splitGroups i cards
      in if checkSingleReq group1 r0 \<and> checkSingleReq group2 r1
         then Some \<lparr>valid = True, groups = Some [group1, group2]\<rparr>
         else if checkSingleReq group2 r0 \<and> checkSingleReq group1 r1
         then Some \<lparr>valid = True, groups = Some [group2, group1]\<rparr>
         else searchSplits rest cards r0 r1)"

definition validatePhaseHand :: "Card list \<Rightarrow> PhaseRequirement list \<Rightarrow> validation" where
  "validatePhaseHand selectedCards reqs =
     (let cards = selectedCards
      in if length reqs = 1 then
           (let req = reqs ! 0;
                v = (case req_type req of
                       SET \<Rightarrow> isValidSet cards (req_count req)
                     | COLOR \<Rightarrow> isValidColor cards (req_count req)
                     | RUN \<Rightarrow> isValidRun cards (req_count req))
            in \<lparr>valid = v, groups = (if v then Some [cards] else None)\<rparr>)
         else if length reqs = 2 then
           (case searchSplits (map int [1..<nat (shiftOne (length cards) - 1)]) cards
                   (reqs ! 0) (reqs ! 1) of
              Some v \<Rightarrow> v
            | None \<Rightarrow> \<lparr>valid = False, groups = None\<rparr>)
         else \<lparr>valid = False, groups = None\<rparr>)"

definition canAddToMeld :: "Card \<Rightarrow> Meld \<Rightarrow> bool" where
  "canAddToMeld c meld =
     (if card_type c = SKIP then False
      else
        let newGroup = meld_cards meld @ [c]
        in case meld_type meld of
             SET \<Rightarrow> isValidSet newGroup (int (length (meld_cards meld)))
           | COLOR \<Rightarrow> isValidColor newGroup (int (length (meld_cards meld)))
           | RUN \<Rightarrow> isValidRun newGroup (int (length (meld_cards meld))))"

section \<open>Deck management and scoring (utils/gameUtils, constants)\<close>

definition COLORS :: "CardColor list" where
  "COLORS = [RED, BLUE, GREEN, YELLOW]"

definition STANDARD_PHASES :: "Phase list" where
  "STANDARD_PHASES =
     [\<lparr>phase_id = 1, phase_name = ''Phase 1'', phase_description = ''2 Sets of 3'',
       requirements = [\<lparr>req_type = SET, req_count = 3\<rparr>, \<lparr>req_type = SET, req_count = 3\<rparr>]\<rparr>,
      \<lparr>phase_id = 2, phase_name = ''Phase 2'', phase_description = ''1 Set of 3 + 1 Run of 4'',
       requirements = [\<lparr>req_type = SET, req_count = 3\<rparr>, \<lparr>req_type = RUN, req_count = 4\<rparr>]\<rparr>,
      \<lparr>phase_id = 3, phase_name = ''Phase 3'', phase_description = ''1 Set of 4 + 1 Run of 4'',
       requirements = [\<lparr>req_type = SET, req_count = 4\<rparr>, \<lparr>req_type = RUN, req_count = 4\<rparr>]\<rparr>,
      \<lparr>phase_id = 4, phase_name = ''Phase 4'', phase_description = ''1 Run of 7'',
       requirements = [\<lparr>req_type = RUN, req_count = 7\<rparr>]\<rparr>,
      \<lparr>phase_id = 5, phase_name = ''Phase 5'', phase_description = ''1 Run of 8'',
       requirements = [\<lparr>req_type = RUN, req_count = 8\<rparr>]\<rparr>,
      \<lparr>phase_id = 6, phase_name = ''Phase 6'', phase_description = ''1 Run of 9'',
       requirements = [\<lparr>req_type = RUN, req_count = 9\<rparr>]\<rparr>,
      \<lparr>phase_id = 7, phase_name = ''Phase 7'', phase_description = ''2 Sets of 4'',
       requirements = [\<lparr>req_type = SET, req_count = 4\<rparr>, \<lparr>req_type = SET, req_count = 4\<rparr>]\<rparr>,
      \<lparr>phase_id = 8, phase_name = ''Phase 8'', phase_description = ''7 Cards of One Color'',
       requirements = [\<lparr>req_type = COLOR, req_count = 7\<rparr>]\<rparr>,
      \<lparr>phase_id = 9, phase_name = ''Phase 9'', phase_description = ''1 Set of 5 + 1 Set of 2'',
       requirements = [\<lparr>req_type = SET, req_count = 5\<rparr>, \<lparr>req_type = SET, req_count = 2\<rparr>]\<rparr>,
      \<lparr>phase_id = 10, phase_name = ''Phase 10'', phase_description = ''1 Set of 5 + 1 Set of 3'',
       requirements = [\<lparr>req_type = SET, req_count = 5\<rparr>, \<lparr>req_type = SET, req_count = 3\<rparr>]\<rparr>]"

text \<open>
  Decimal printing of a number, as the template literal \<^verbatim>\<open>`card-${idCounter++}`\<close> and
  \<^verbatim>\<open>val.toString()\<close> do it for an integer.
\<close>

fun digitsOf :: "nat \<Rightarrow> string" where
  "digitsOf n =
     (if n < 10 then [char_of (48 + n)]
      else digitsOf (n div 10) @ [char_of (48 + n mod 10)])"

declare digitsOf.simps [simp del]

definition toString :: "int \<Rightarrow> string" where
  "toString i = (if i < 0 then CHR ''-'' # digitsOf (nat (- i)) else digitsOf (nat i))"

text \<open>
  \<^verbatim>\<open>createDeck\<close> pushes onto \<^verbatim>\<open>deck\<close> and counts \<^verbatim>\<open>idCounter\<close> up; the pair of
  both is the loop state. The three \<^verbatim>\<open>push\<close> calls are the three functions below, the
  loops are folds over their ranges.
\<close>

definition pushNumber :: "CardColor \<Rightarrow> int \<Rightarrow> Card list \<times> nat \<Rightarrow> Card list \<times> nat" where
  "pushNumber color val = (\<lambda>(deck, idCounter).
     (deck @ [\<lparr>card_id = ''card-'' @ digitsOf idCounter, card_type = NUMBER, card_color = color,
               card_value = val, card_displayValue = toString val\<rparr>],
      idCounter + 1))"

definition pushWild :: "Card list \<times> nat \<Rightarrow> Card list \<times> nat" where
  "pushWild = (\<lambda>(deck, idCounter).
     (deck @ [\<lparr>card_id = ''card-'' @ digitsOf idCounter, card_type = WILD,
               card_color = CardColor_WILD, card_value = 25, card_displayValue = ''W''\<rparr>],
      idCounter + 1))"

definition pushSkip :: "Card list \<times> nat \<Rightarrow> Card list \<times> nat" where
  "pushSkip = (\<lambda>(deck, idCounter).
     (deck @ [\<lparr>card_id = ''card-'' @ digitsOf idCounter, card_type = SKIP,
               card_color = CardColor_SKIP, card_value = 15, card_displayValue = ''S''\<rparr>],
      idCounter + 1))"

definition createDeck :: "Card list" where
  "createDeck =
     (let afterNumbers =
            fold (\<lambda>color. fold (\<lambda>set. fold (\<lambda>val. pushNumber color val) [1..12]) [0..<2::nat])
              COLORS ([], 0);
          afterWilds = fold (\<lambda>i. pushWild) [0..<8::nat] afterNumbers;
          afterSkips = fold (\<lambda>i. pushSkip) [0..<4::nat] afterWilds
      in fst afterSkips)"

text \<open>
  \<^verbatim>\<open>shuffleDeck\<close> is the Fisher-Yates loop, \<^verbatim>\<open>i\<close> running from the last position
  down to 1. \<^verbatim>\<open>Math.random\<close> is not a function of the program state, so the model
  takes the draws as an argument: \<open>rnd i\<close> stands for the draw made at position \<open>i\<close>,
  and \<^verbatim>\<open>Math.floor(Math.random() * (i + 1))\<close>, which lies in \<open>0..i\<close>, is
  \<open>rnd i mod (i + 1)\<close>. Every choice of positions is obtained from some \<open>rnd\<close>.
\<close>

fun shuffleLoop :: "(nat \<Rightarrow> nat) \<Rightarrow> nat \<Rightarrow> 'a list \<Rightarrow> 'a list" where
  "shuffleLoop rnd 0 newDeck = newDeck"
| "shuffleLoop rnd (Suc k) newDeck =
     (let i = Suc k; j = rnd i mod (i + 1)
      in shuffleLoop rnd k (newDeck[i := newDeck ! j, j := newDeck ! i]))"

definition shuffleDeck :: "(nat \<Rightarrow> nat) \<Rightarrow> 'a list \<Rightarrow> 'a list" where
  "shuffleDeck rnd deck = shuffleLoop rnd (length deck - 1) deck"

definition calculateScore :: "Card list \<Rightarrow> int" where
  "calculateScore cards =
     foldl (\<lambda>acc c.
        if card_type c = WILD then acc + 25
        else if card_type c = SKIP then acc + 15
        else if card_value c \<ge> 10 then acc + 10
        else acc + 5) 0 cards"

text \<open>
  The per-card penalty in the words of the specification: a wild card counts 25, a skip
  card 15, a number card of value 10 or more counts 10, any other number card 5.
\<close>

definition cardPenalty :: "Card \<Rightarrow> int" where
  "cardPenalty c =
     (case card_type c of
        WILD \<Rightarrow> 25
      | SKIP \<Rightarrow> 15
      | NUMBER \<Rightarrow> if card_value c \<ge> 10 then 10 else 5)"

section \<open>The game component (App): turn state machine and round end\<close>

text \<open>
  The component keeps its state in React state variables. Within one run of a handler
  every state variable is a constant: the handler reads the values of the render that
  created it, and each \<^verbatim>\<open>setX(v)\<close> only schedules \<open>v\<close> as the next value of
  \<^verbatim>\<open>X\<close>, the last call for a variable being the one that counts. A handler is
  therefore a function of two records of type \<open>App\<close>: \<open>snap\<close>, the values it reads,
  and \<open>t\<close>, the values scheduled so far, which it returns updated. A handler called from
  the outside starts with \<open>t = snap\<close>.

  The record holds the state variables the handlers below use, and three fields for the
  network side of a client: its own player id, whether the connection to the host is open,
  and the action messages handed to that connection.
\<close>

datatype NetworkActionType = Action_DRAW | Action_DISCARD | Action_MELD | Action_HIT
  | Action_REORDER | Action_START_GAME

record NetworkActionPayload =
  action :: NetworkActionType
  playerId :: "string option"
  cardId :: "string option"
  cardIds :: "string list option"
  meldId :: "string option"
  fromIndex :: "int option"
  toIndex :: "int option"
  fromDiscard :: "bool option"

record App =
  gameState :: GameState
  phases :: "Phase list"
  notification :: string
  isMultiplayer :: bool
  isHost :: bool
  myPlayerId :: string
  hostConnOpen :: bool
  outbox :: "NetworkActionPayload list"
  timeLeft :: int
  players :: "Player list"
  deck :: "Card list"
  discardPile :: "Card list"
  currentPlayerIndex :: nat
  turnPhase :: TurnPhase
  selectedCardIds :: "string list"
  roundWinnerId :: "string option"

text \<open>
  \<open>TypeError\<close> is the exception of reading a property of \<^verbatim>\<open>undefined\<close>.
  \<open>SparseArray\<close> marks a write \<^verbatim>\<open>newPlayers[currentPlayerIndex] = ...\<close> past the
  end of the array: JavaScript then extends the array and leaves holes, which a list of
  players cannot hold, so the model stops there. No state of a running game reaches it:
  the index is 0 at the start of a round and a remainder modulo the number of players
  afterwards.
\<close>

datatype error = TypeError | SparseArray

definition sendClientAction :: "NetworkActionPayload \<Rightarrow> App \<Rightarrow> App" where
  "sendClientAction a t =
     (if hostConnOpen t then t\<lparr>outbox := outbox t @ [a\<lparr>playerId := Some (myPlayerId t)\<rparr>]\<rparr>
      else t)"

definition endRound :: "App \<Rightarrow> string \<Rightarrow> App \<Rightarrow> App" where
  "endRound snap winnerId t =
     (let updatedPlayers =
            map (\<lambda>p. if player_id p = winnerId then p\<lparr>score := score p\<rparr>
                      else p\<lparr>score := score p + calculateScore (hand p)\<rparr>) (players snap);
          finalPlayers =
            map (\<lambda>p. p\<lparr>phaseIndex :=
                        (if hasLaidDownPhase p
                         then min (phaseIndex p + 1) (int (length (phases snap)) - 1)
                         else phaseIndex p)\<rparr>) updatedPlayers
      in t\<lparr>roundWinnerId := Some winnerId, gameState := ROUND_OVER, players := finalPlayers\<rparr>)"

definition performDiscard :: "App \<Rightarrow> Player \<Rightarrow> Card \<Rightarrow> App \<Rightarrow> error + App" where
  "performDiscard snap player cardToDiscard t =
     (let newHand = filter (\<lambda>c. card_id c \<noteq> card_id cardToDiscard) (hand player);
          newDiscard = discardPile snap @ [cardToDiscard]
      in if currentPlayerIndex snap \<ge> length (players snap) then Inl SparseArray
         else
           let newPlayers = (players snap)[currentPlayerIndex snap := player\<lparr>hand := newHand\<rparr>];
               t1 = t\<lparr>discardPile := newDiscard, players := newPlayers, selectedCardIds := []\<rparr>
           in if length newHand = 0 then Inr (endRound snap (player_id player) t1)
              else
                let nextIndex = (currentPlayerIndex snap + 1) mod length (players snap)
                in if card_type cardToDiscard = SKIP then
                     Inr (t1\<lparr>notification := player_name (players snap ! nextIndex) @ '' was skipped!'',
                             players := newPlayers[nextIndex :=
                                          (newPlayers ! nextIndex)\<lparr>isSkipped := Some True\<rparr>],
                             currentPlayerIndex := (nextIndex + 1) mod length (players snap),
                             turnPhase := DRAW\<rparr>)
                   else Inr (t1\<lparr>currentPlayerIndex := nextIndex, turnPhase := DRAW\<rparr>))"

text \<open>
  The end of \<^verbatim>\<open>handleDraw\<close>, common to its three ways of obtaining a card: the card
  goes to the end of the current player's hand and the turn moves to \<open>ACTION\<close>.
\<close>

definition finishDraw :: "App \<Rightarrow> Player \<Rightarrow> Card \<Rightarrow> Card list \<Rightarrow> Card list \<Rightarrow> App" where
  "finishDraw snap player c newDeck newDiscard =
     (let updatedPlayer = player\<lparr>hand := hand player @ [c]\<rparr>;
          newPlayers = (players snap)[currentPlayerIndex snap := updatedPlayer]
      in snap\<lparr>deck := newDeck, discardPile := newDiscard, players := newPlayers,
              turnPhase := ACTION\<rparr>)"

definition handleDraw :: "(nat \<Rightarrow> nat) \<Rightarrow> bool \<Rightarrow> App \<Rightarrow> error + App" where
  "handleDraw rnd fromDisc snap =
     (if isMultiplayer snap \<and> \<not> isHost snap then
        Inr (sendClientAction
               \<lparr>action = Action_DRAW, playerId = None, cardId = None, cardIds = None,
                meldId = None, fromIndex = None, toIndex = None, fromDiscard = Some fromDisc\<rparr>
               snap)
      else if currentPlayerIndex snap \<ge> length (players snap) then Inl TypeError
      else
        let player = players snap ! currentPlayerIndex snap
        in if \<not> isHuman player \<and> timeLeft snap > 0 \<and> \<not> isMultiplayer snap then Inr snap
           else if fromDisc then
             (if discardPile snap = [] then Inl TypeError
              else if card_type (last (discardPile snap)) = SKIP
              then Inr (snap\<lparr>notification := ''Cannot pick up a Skip card!''\<rparr>)
              else Inr (finishDraw snap player (last (discardPile snap)) (deck snap)
                          (butlast (discardPile snap))))
           else if length (deck snap) = 0 then
             (if length (discardPile snap) \<le> 1
              then Inr (snap\<lparr>notification :=
                                ''Deck empty and no discard to shuffle. Game Draw.''\<rparr>)
              else
                let top = last (discardPile snap);
                    newDeck = shuffleDeck rnd (butlast (discardPile snap))
                in Inr (finishDraw snap player (last newDeck) (butlast newDeck) [top]))
           else Inr (finishDraw snap player (last (deck snap)) (butlast (deck snap))
                       (discardPile snap)))"

text \<open>
  Helpers for \<^verbatim>\<open>botPlayTurn\<close>: \<^verbatim>\<open>findIndex\<close> (\<open>None\<close> for \<open>-1\<close>),
  \<^verbatim>\<open>slice(0, n)\<close> and the remainder after \<^verbatim>\<open>splice(0, n)\<close> for an integer \<open>n\<close>
  (a negative end of a slice counts from the end of the array; a negative delete count
  is 0).
\<close>

fun findIndex :: "('a \<Rightarrow> bool) \<Rightarrow> 'a list \<Rightarrow> nat option" where
  "findIndex P [] = None"
| "findIndex P (x # xs) =
     (if P x then Some 0 else map_option Suc (findIndex P xs))"

definition sliceFromStart :: "'a list \<Rightarrow> int \<Rightarrow> 'a list" where
  "sliceFromStart xs n =
     (if n < 0 then take (nat (int (length xs) + n)) xs else take (nat n) xs)"

definition spliceFromStart :: "'a list \<Rightarrow> int \<Rightarrow> 'a list" where
  "spliceFromStart xs n = drop (nat n) xs"

text \<open>
  \<^verbatim>\<open>botPlayTurn\<close> uses two more values from outside the program state:
  \<open>roll\<close> is the result of \<^verbatim>\<open>Math.random()\<close> in the meld test and \<open>now\<close> is
  \<^verbatim>\<open>Date.now()\<close>. The descending sort with the comparator \<^verbatim>\<open>b.value - a.value\<close> is
  the stable sort by the negated value.
\<close>

definition botPlayTurn ::
  "(nat \<Rightarrow> nat) \<Rightarrow> real \<Rightarrow> nat \<Rightarrow> App \<Rightarrow> Player \<Rightarrow> error + App" where
  "botPlayTurn rnd roll now snap botPlayer =
     (if gameState snap \<noteq> PLAYING then Inr snap
      else if length (deck snap) = 0 \<and> \<not> length (discardPile snap) > 1 then Inr snap
      else
        let drawPile = (if length (deck snap) > 0 then deck snap
                        else shuffleDeck rnd (butlast (discardPile snap)));
            cardDrawn = last drawPile;
            currentDeck = butlast drawPile;
            currentHand = hand botPlayer @ [cardDrawn];
            t1 = snap\<lparr>deck := currentDeck\<rparr>;
            hasMeld = (\<not> hasLaidDownPhase botPlayer \<and> length currentHand \<ge> 6 \<and> roll > 0.85)
        in if hasMeld \<and>
              (phaseIndex botPlayer < 0 \<or> phaseIndex botPlayer \<ge> int (length (phases snap)))
           then Inl TypeError
           else
             let reqCount =
                   (if hasMeld
                    then foldl (\<lambda>a b. a + req_count b) 0
                           (requirements (phases snap ! nat (phaseIndex botPlayer)))
                    else 0);
                 meldCards = sliceFromStart currentHand reqCount;
                 handLeft = (if hasMeld then spliceFromStart currentHand reqCount
                             else currentHand);
                 botMeld = \<lparr>meld_id = ''bot-meld-'' @ player_id botPlayer @ ''-'' @ digitsOf now,
                            meld_cards = meldCards, meld_type = SET,
                            meld_ownerId = player_id botPlayer\<rparr>;
                 t2 = (if hasMeld then
                         t1\<lparr>players :=
                              (case findIndex (\<lambda>p. player_id p = player_id botPlayer)
                                      (players snap) of
                                 None \<Rightarrow> players snap
                               | Some botIndex \<Rightarrow>
                                   (players snap)[botIndex :=
                                      botPlayer\<lparr>melds := melds botPlayer @ [botMeld]\<rparr>])\<rparr>
                       else t1);
                 botUpdated = botPlayer\<lparr>hand := handLeft,
                                  hasLaidDownPhase := (hasLaidDownPhase botPlayer \<or> hasMeld)\<rparr>;
                 sortedHand = sort_key (\<lambda>c. - card_value c) handLeft;
                 discardCard =
                   (case find (\<lambda>c. card_type c \<noteq> WILD \<and> card_type c \<noteq> SKIP) sortedHand of
                      Some c \<Rightarrow> Some c
                    | None \<Rightarrow> (case sortedHand of [] \<Rightarrow> None | c # _ \<Rightarrow> Some c))
             in case discardCard of
                  Some c \<Rightarrow> performDiscard snap botUpdated c t2
                | None \<Rightarrow> Inr t2)"

text \<open>
  The cards of a state, place by place: the deck, the discard pile, every hand and every
  meld; and the multiset of their ids, which card conservation is about.
\<close>

definition allCards :: "App \<Rightarrow> Card list" where
  "allCards s =
     deck s @ discardPile s @ concat (map hand (players s))
       @ concat (map (\<lambda>p. concat (map meld_cards (melds p))) (players s))"

definition cardIdsOf :: "App \<Rightarrow> string multiset" where
  "cardIdsOf s = mset (map card_id (allCards s))"

section \<open>A small round, for evaluating the handlers\<close>

text \<open>
  A state of a single-process game in \<open>PLAYING\<close> with the four players that
  \<^verbatim>\<open>startGame\<close> creates there, late in a round: the deck is used up, three cards lie
  on the discard pile and every hand is short. The cards are cards of
  \<^const>\<open>createDeck\<close> (red 1 to 7 and the first skip card).
\<close>

definition redCard :: "string \<Rightarrow> int \<Rightarrow> string \<Rightarrow> Card" where
  "redCard i v d =
     \<lparr>card_id = i, card_type = NUMBER, card_color = RED, card_value = v, card_displayValue = d\<rparr>"

definition skipCard :: Card where
  "skipCard =
     \<lparr>card_id = ''card-104'', card_type = SKIP, card_color = CardColor_SKIP, card_value = 15,
      card_displayValue = ''S''\<rparr>"

definition lateRound :: App where
  "lateRound =
     \<lparr>gameState = PLAYING, phases = STANDARD_PHASES, notification = [],
      isMultiplayer = False, isHost = False, myPlayerId = ''p1'', hostConnOpen = False,
      outbox = [], timeLeft = 30,
      players =
        [\<lparr>player_id = ''p1'', player_name = ''Player 1 (Host)'', isHuman = True,
          hand = [redCard ''card-4'' 5 ''5'', skipCard], melds = [], phaseIndex = 0,
          hasLaidDownPhase = False, score = 0, isSkipped = Some False\<rparr>,
         \<lparr>player_id = ''bot-0'', player_name = ''Alpha'', isHuman = False,
          hand = [redCard ''card-3'' 4 ''4''], melds = [], phaseIndex = 0,
          hasLaidDownPhase = False, score = 0, isSkipped = Some False\<rparr>,
         \<lparr>player_id = ''bot-1'', player_name = ''Beta'', isHuman = False,
          hand = [redCard ''card-5'' 6 ''6''], melds = [], phaseIndex = 0,
          hasLaidDownPhase = False, score = 0, isSkipped = Some False\<rparr>,
         \<lparr>player_id = ''bot-2'', player_name = ''Gamma'', isHuman = False,
          hand = [redCard ''card-6'' 7 ''7''], melds = [], phaseIndex = 0,
          hasLaidDownPhase = False, score = 0, isSkipped = Some False\<rparr>],
      deck = [],
      discardPile =
        [redCard ''card-0'' 1 ''1'', redCard ''card-1'' 2 ''2'', redCard ''card-2'' 3 ''3''],
      currentPlayerIndex = 0, turnPhase = DRAW, selectedCardIds = [], roundWinnerId = None\<rparr>"

section \<open>Properties of the meld validator\<close>

subsection \<open>Auxiliary facts\<close>

lemma isValidSet_char:
  "isValidSet cards n \<longleftrightarrow>
     n \<le> int (length cards) \<and>
     (filter (\<lambda>c. card_type c = NUMBER) cards = [] \<or>
      ((\<forall>c \<in> set (filter (\<lambda>c. card_type c = NUMBER) cards).
          \<forall>d \<in> set (filter (\<lambda>c. card_type c = NUMBER) cards). card_value c = card_value d) \<and>
       n \<le> int (length (filter (\<lambda>c. card_type c = NUMBER) cards))
             + int (length (filter (\<lambda>c. card_type c = WILD) cards))))"
proof (cases "filter (\<lambda>c. card_type c = NUMBER) cards")
  case Nil
  then show ?thesis by (simp add: isValidSet_def)
next
  case (Cons first rest)
  have "list_all (\<lambda>c. card_value c = card_value first) (first # rest) \<longleftrightarrow>
        (\<forall>c \<in> set (first # rest). \<forall>d \<in> set (first # rest). card_value c = card_value d)"
    by (auto simp: list_all_iff)
  with Cons show ?thesis
    by (simp add: isValidSet_def Let_def del: set_simps)
qed

lemma isValidColor_char:
  "isValidColor cards n \<longleftrightarrow>
     n \<le> int (length cards) \<and>
     (filter (\<lambda>c. card_type c = NUMBER \<or> card_type c = SKIP) cards = [] \<or>
      ((\<forall>c \<in> set (filter (\<lambda>c. card_type c = NUMBER \<or> card_type c = SKIP) cards).
          \<forall>d \<in> set (filter (\<lambda>c. card_type c = NUMBER \<or> card_type c = SKIP) cards).
             card_color c = card_color d) \<and>
       n \<le> int (length (filter (\<lambda>c. card_type c = NUMBER \<or> card_type c = SKIP) cards))
             + int (length (filter (\<lambda>c. card_type c = WILD) cards))))"
proof (cases "filter (\<lambda>c. card_type c = NUMBER \<or> card_type c = SKIP) cards")
  case Nil
  then show ?thesis by (simp add: isValidColor_def)
next
  case (Cons first rest)
  have "list_all (\<lambda>c. card_color c = card_color first) (first # rest) \<longleftrightarrow>
        (\<forall>c \<in> set (first # rest). \<forall>d \<in> set (first # rest). card_color c = card_color d)"
    by (auto simp: list_all_iff)
  with Cons show ?thesis
    by (simp add: isValidColor_def Let_def del: set_simps)
qed

text \<open>The gap loop reads nothing of a card but its value.\<close>

lemma gapLoop_values:
  "map card_value xs = map card_value ys \<Longrightarrow> gapLoop xs a = gapLoop ys a"
proof (induction xs a arbitrary: ys rule: gapLoop.induct)
  case (1 x y rest a)
  then obtain x' y' rest' where ys: "ys = x' # y' # rest'"
    by (auto simp: map_eq_Cons_conv)
  with 1 show ?case by (auto simp: Let_def)
qed (auto simp: map_eq_Cons_conv)

lemma gapLoop_Some_distinct:
  "gapLoop xs a = Some r \<Longrightarrow> sorted (map card_value xs) \<Longrightarrow> distinct (map card_value xs)"
proof (induction xs a rule: gapLoop.induct)
  case (1 x y rest a)
  then show ?case by (auto simp: Let_def split: if_splits)
qed simp_all

lemma sorted_values: "map card_value (sort_key card_value xs) = sort (map card_value xs)"
  by (rule properties_for_sort [symmetric]) simp_all

lemma perm_filter_length:
  "mset xs = mset ys \<Longrightarrow> length (filter P xs) = length (filter P ys)"
  by (metis mset_filter size_mset)

lemma perm_filter_set:
  "mset xs = mset ys \<Longrightarrow> set (filter P xs) = set (filter P ys)"
  by (metis mset_filter set_mset_mset)

lemma perm_filter_nil:
  "mset xs = mset ys \<Longrightarrow> (filter P xs = []) = (filter P ys = [])"
  by (metis perm_filter_length length_0_conv)

lemma isValidSet_perm: "mset xs = mset ys \<Longrightarrow> isValidSet xs n = isValidSet ys n"
  unfolding isValidSet_char
  using perm_filter_length [of xs ys] perm_filter_set [of xs ys] perm_filter_nil [of xs ys]
    mset_eq_length [of xs ys]
  by simp

lemma isValidColor_perm: "mset xs = mset ys \<Longrightarrow> isValidColor xs n = isValidColor ys n"
  unfolding isValidColor_char
  using perm_filter_length [of xs ys] perm_filter_set [of xs ys] perm_filter_nil [of xs ys]
    mset_eq_length [of xs ys]
  by simp

lemma isValidRun_perm:
  assumes "mset xs = mset ys"
  shows "isValidRun xs n = isValidRun ys n"
proof -
  let ?N = "\<lambda>zs. sort_key card_value (filter (\<lambda>c. card_type c = NUMBER) zs)"
  have "mset (map card_value (filter (\<lambda>c. card_type c = NUMBER) xs)) =
        mset (map card_value (filter (\<lambda>c. card_type c = NUMBER) ys))"
    using assms by (metis mset_filter mset_map)
  then have "sort (map card_value (filter (\<lambda>c. card_type c = NUMBER) xs)) =
        sort (map card_value (filter (\<lambda>c. card_type c = NUMBER) ys))"
    by (metis properties_for_sort sorted_sort mset_sort)
  then have "map card_value (?N xs) = map card_value (?N ys)"
    by (simp add: sorted_values)
  then have g: "gapLoop (?N xs) 0 = gapLoop (?N ys) 0"
    by (rule gapLoop_values)
  have l: "length xs = length ys"
    using assms by (rule mset_eq_length)
  have w: "length (filter (\<lambda>c. card_type c = WILD) xs) =
           length (filter (\<lambda>c. card_type c = WILD) ys)"
    using assms by (rule perm_filter_length)
  have e: "length (filter (\<lambda>c. card_type c = NUMBER) xs) =
           length (filter (\<lambda>c. card_type c = NUMBER) ys)"
    using assms by (rule perm_filter_length)
  show ?thesis
    unfolding isValidRun_def Let_def using g l w e by (simp split: option.split)
qed

text \<open>A selection with two number cards of one value is never a run, whatever the count.\<close>

lemma run_no_duplicates:
  assumes "\<not> distinct (map card_value (filter (\<lambda>c. card_type c = NUMBER) cards))"
  shows "\<not> isValidRun cards n"
proof
  let ?N = "sort_key card_value (filter (\<lambda>c. card_type c = NUMBER) cards)"
  assume v: "isValidRun cards n"
  have "filter (\<lambda>c. card_type c = NUMBER) cards \<noteq> []"
    using assms by auto
  then have "length ?N \<noteq> 0" by simp
  then have ne: "?N \<noteq> []" by (simp del: length_sort)
  with v obtain r where "gapLoop ?N 0 = Some r"
    by (auto simp: isValidRun_def Let_def split: if_splits option.splits)
  then have "distinct (map card_value ?N)"
    by (rule gapLoop_Some_distinct) simp
  then have "distinct (map card_value (filter (\<lambda>c. card_type c = NUMBER) cards))"
    by (metis distinct_map distinct_sort set_sort)
  with assms show False by simp
qed

subsection \<open>The run examples\<close>

text \<open>
  Claim C2, as stated, at a count of 7: four number cards 3, 4, 6, 7 of one colour and two
  wild cards are six cards, and \<^const>\<open>isValidRun\<close> refuses any selection shorter than
  the required count before it looks at the gaps.
\<close>

theorem isValidRun_six_cards_count_seven:
  "\<not> isValidRun
     [\<lparr>card_id = ''card-2'', card_type = NUMBER, card_color = RED, card_value = 3,
        card_displayValue = ''3''\<rparr>,
      \<lparr>card_id = ''card-3'', card_type = NUMBER, card_color = RED, card_value = 4,
        card_displayValue = ''4''\<rparr>,
      \<lparr>card_id = ''card-5'', card_type = NUMBER, card_color = RED, card_value = 6,
        card_displayValue = ''6''\<rparr>,
      \<lparr>card_id = ''card-6'', card_type = NUMBER, card_color = RED, card_value = 7,
        card_displayValue = ''7''\<rparr>,
      \<lparr>card_id = ''card-96'', card_type = WILD, card_color = CardColor_WILD, card_value = 25,
        card_displayValue = ''W''\<rparr>,
      \<lparr>card_id = ''card-97'', card_type = WILD, card_color = CardColor_WILD, card_value = 25,
        card_displayValue = ''W''\<rparr>] 7"
  by (simp add: isValidRun_def)

text \<open>
  Claim C2, amended: the six cards 3, 4, 6, 7 of one colour plus two wild cards form a run
  exactly for the required counts up to 6 (the two wild cards cover the one missing value
  5, but the selection cannot be longer than its six cards), so at a count of 7 the answer
  is false; and the number cards 3, 3, 4 are rejected at every required count.
\<close>

theorem isValidRun_examples:
  "(isValidRun
     [\<lparr>card_id = i1, card_type = NUMBER, card_color = col, card_value = 3, card_displayValue = d1\<rparr>,
      \<lparr>card_id = i2, card_type = NUMBER, card_color = col, card_value = 4, card_displayValue = d2\<rparr>,
      \<lparr>card_id = i3, card_type = NUMBER, card_color = col, card_value = 6, card_displayValue = d3\<rparr>,
      \<lparr>card_id = i4, card_type = NUMBER, card_color = col, card_value = 7, card_displayValue = d4\<rparr>,
      \<lparr>card_id = i5, card_type = WILD, card_color = c5, card_value = v5, card_displayValue = d5\<rparr>,
      \<lparr>card_id = i6, card_type = WILD, card_color = c6, card_value = v6, card_displayValue = d6\<rparr>] n
    = (n \<le> 6))
   \<and> isValidRun
     [\<lparr>card_id = j1, card_type = NUMBER, card_color = e1, card_value = 3, card_displayValue = f1\<rparr>,
      \<lparr>card_id = j2, card_type = NUMBER, card_color = e2, card_value = 3, card_displayValue = f2\<rparr>,
      \<lparr>card_id = j3, card_type = NUMBER, card_color = e3, card_value = 4, card_displayValue = f3\<rparr>] m
    = False"
  by (simp add: isValidRun_def Let_def)

subsection \<open>Hitting a meld\<close>

text \<open>
  Claim C6: a fourth 5 of another colour may be added to a set meld of three 5s; a skip
  card is refused for every meld; and in general \<^const>\<open>canAddToMeld\<close> is the check of
  the meld's own requirement kind, at a count equal to the meld's present size, on the
  whole group made of the meld's cards followed by the new card.
\<close>

theorem canAddToMeld_revalidates:
  "canAddToMeld
       \<lparr>card_id = i4, card_type = NUMBER, card_color = colB, card_value = 5, card_displayValue = d4\<rparr>
       \<lparr>meld_id = m, meld_cards =
          [\<lparr>card_id = i1, card_type = NUMBER, card_color = colA, card_value = 5, card_displayValue = d1\<rparr>,
           \<lparr>card_id = i2, card_type = NUMBER, card_color = colA, card_value = 5, card_displayValue = d2\<rparr>,
           \<lparr>card_id = i3, card_type = NUMBER, card_color = colA, card_value = 5, card_displayValue = d3\<rparr>],
         meld_type = SET, meld_ownerId = ow\<rparr>
   \<and> canAddToMeld (c\<lparr>card_type := SKIP\<rparr>) meld = False
   \<and> canAddToMeld c' meld' =
       (card_type c' \<noteq> SKIP \<and>
        checkSingleReq (meld_cards meld' @ [c'])
          \<lparr>req_type = meld_type meld', req_count = int (length (meld_cards meld'))\<rparr>)"
  by (simp add: canAddToMeld_def checkSingleReq_def isValidSet_def Let_def
        split: RequirementType.split)

text \<open>
  Claim C9: when a meld's cards satisfy the meld's own kind at a count equal to the number
  of cards in the meld, every wild card can be added to it.
\<close>

theorem wild_card_hits_valid_meld:
  assumes w: "card_type w = WILD"
    and v: "checkSingleReq (meld_cards meld)
       \<lparr>req_type = meld_type meld, req_count = int (length (meld_cards meld))\<rparr>"
  shows "canAddToMeld w meld"
proof (cases "meld_type meld")
  case SET
  with v w show ?thesis
    by (auto simp: canAddToMeld_def checkSingleReq_def isValidSet_def Let_def
          split: list.splits)
next
  case RUN
  with v w show ?thesis
    by (auto simp: canAddToMeld_def checkSingleReq_def isValidRun_def Let_def
          split: option.splits if_splits)
next
  case COLOR
  with v w show ?thesis
    by (auto simp: canAddToMeld_def checkSingleReq_def isValidColor_def Let_def
          split: list.splits)
qed

theorem wild_card_hits_valid_meld_witness:
  "canAddToMeld
     \<lparr>card_id = ''card-96'', card_type = WILD, card_color = CardColor_WILD, card_value = 25,
       card_displayValue = ''W''\<rparr>
     \<lparr>meld_id = ''meld-1-0'', meld_cards =
        [\<lparr>card_id = ''card-3'', card_type = NUMBER, card_color = RED, card_value = 4,
           card_displayValue = ''4''\<rparr>,
         \<lparr>card_id = ''card-5'', card_type = NUMBER, card_color = RED, card_value = 6,
           card_displayValue = ''6''\<rparr>,
         \<lparr>card_id = ''card-97'', card_type = WILD, card_color = CardColor_WILD, card_value = 25,
           card_displayValue = ''W''\<rparr>],
       meld_type = RUN, meld_ownerId = ''host''\<rparr>"
  by (rule wild_card_hits_valid_meld) (simp_all add: checkSingleReq_def isValidRun_def)

subsection \<open>Order of the selected cards\<close>

text \<open>
  Claim C8: for every list of cards, every rearrangement of it (a list with the same
  multiset of cards) and every required count, \<^const>\<open>isValidSet\<close>,
  \<^const>\<open>isValidColor\<close> and \<^const>\<open>isValidRun\<close> each give the same verdict on both
  lists.
\<close>

theorem validators_ignore_card_order:
  assumes "mset cards' = mset cards"
  shows "isValidSet cards' n = isValidSet cards n
       \<and> isValidColor cards' n = isValidColor cards n
       \<and> isValidRun cards' n = isValidRun cards n"
  using assms isValidSet_perm isValidColor_perm isValidRun_perm by blast

theorem validators_ignore_card_order_witness:
  "isValidSet
     [\<lparr>card_id = ''card-96'', card_type = WILD, card_color = CardColor_WILD, card_value = 25,
        card_displayValue = ''W''\<rparr>,
      \<lparr>card_id = ''card-5'', card_type = NUMBER, card_color = RED, card_value = 6,
        card_displayValue = ''6''\<rparr>,
      \<lparr>card_id = ''card-3'', card_type = NUMBER, card_color = RED, card_value = 4,
        card_displayValue = ''4''\<rparr>] 3
   = isValidSet
     [\<lparr>card_id = ''card-3'', card_type = NUMBER, card_color = RED, card_value = 4,
        card_displayValue = ''4''\<rparr>,
      \<lparr>card_id = ''card-5'', card_type = NUMBER, card_color = RED, card_value = 6,
        card_displayValue = ''6''\<rparr>,
      \<lparr>card_id = ''card-96'', card_type = WILD, card_color = CardColor_WILD, card_value = 25,
        card_displayValue = ''W''\<rparr>] 3
   \<and> isValidColor
     [\<lparr>card_id = ''card-96'', card_type = WILD, card_color = CardColor_WILD, card_value = 25,
        card_displayValue = ''W''\<rparr>,
      \<lparr>card_id = ''card-5'', card_type = NUMBER, card_color = RED, card_value = 6,
        card_displayValue = ''6''\<rparr>,
      \<lparr>card_id = ''card-3'', card_type = NUMBER, card_color = RED, card_value = 4,
        card_displayValue = ''4''\<rparr>] 3
   = isValidColor
     [\<lparr>card_id = ''card-3'', card_type = NUMBER, card_color = RED, card_value = 4,
        card_displayValue = ''4''\<rparr>,
      \<lparr>card_id = ''card-5'', card_type = NUMBER, card_color = RED, card_value = 6,
        card_displayValue = ''6''\<rparr>,
      \<lparr>card_id = ''card-96'', card_type = WILD, card_color = CardColor_WILD, card_value = 25,
        card_displayValue = ''W''\<rparr>] 3
   \<and> isValidRun
     [\<lparr>card_id = ''card-96'', card_type = WILD, card_color = CardColor_WILD, card_value = 25,
        card_displayValue = ''W''\<rparr>,
      \<lparr>card_id = ''card-5'', card_type = NUMBER, card_color = RED, card_value = 6,
        card_displayValue = ''6''\<rparr>,
      \<lparr>card_id = ''card-3'', card_type = NUMBER, card_color = RED, card_value = 4,
        card_displayValue = ''4''\<rparr>] 3
   = isValidRun
     [\<lparr>card_id = ''card-3'', card_type = NUMBER, card_color = RED, card_value = 4,
        card_displayValue = ''4''\<rparr>,
      \<lparr>card_id = ''card-5'', card_type = NUMBER, card_color = RED, card_value = 6,
        card_displayValue = ''6''\<rparr>,
      \<lparr>card_id = ''card-96'', card_type = WILD, card_color = CardColor_WILD, card_value = 25,
        card_displayValue = ''W''\<rparr>] 3"
  by (rule validators_ignore_card_order) simp

subsection \<open>Phases with an unsupported number of requirements\<close>

text \<open>
  Claim C10: for every selection and every requirements list whose length is neither 1 nor
  2, \<^const>\<open>validatePhaseHand\<close> answers \<open>valid = false\<close> and carries no groups.
\<close>

theorem validatePhaseHand_other_lengths:
  assumes "length reqs \<noteq> 1" and "length reqs \<noteq> 2"
  shows "validatePhaseHand selectedCards reqs = \<lparr>valid = False, groups = None\<rparr>"
  using assms by (simp add: validatePhaseHand_def)

theorem validatePhaseHand_other_lengths_witness:
  "validatePhaseHand
     [\<lparr>card_id = ''card-96'', card_type = WILD, card_color = CardColor_WILD, card_value = 25,
        card_displayValue = ''W''\<rparr>,
      \<lparr>card_id = ''card-97'', card_type = WILD, card_color = CardColor_WILD, card_value = 25,
        card_displayValue = ''W''\<rparr>,
      \<lparr>card_id = ''card-98'', card_type = WILD, card_color = CardColor_WILD, card_value = 25,
        card_displayValue = ''W''\<rparr>]
     [\<lparr>req_type = SET, req_count = 1\<rparr>, \<lparr>req_type = SET, req_count = 1\<rparr>,
      \<lparr>req_type = SET, req_count = 1\<rparr>]
   = \<lparr>valid = False, groups = None\<rparr>
   \<and> validatePhaseHand [] [] = \<lparr>valid = False, groups = None\<rparr>"
  using validatePhaseHand_other_lengths [of "[\<lparr>req_type = SET, req_count = 1\<rparr>,
      \<lparr>req_type = SET, req_count = 1\<rparr>, \<lparr>req_type = SET, req_count = 1\<rparr>]"]
    validatePhaseHand_other_lengths [of "[]" "[]"]
  by simp

section \<open>Properties of the deck, the score and the turn state machine\<close>

subsection \<open>Auxiliary facts\<close>

lemma shuffleLoop_length [simp]: "length (shuffleLoop rnd k xs) = length xs"
  by (induction k arbitrary: xs) (simp_all add: Let_def)

lemma shuffleLoop_mset: "k < length xs \<Longrightarrow> mset (shuffleLoop rnd k xs) = mset xs"
proof (induction k arbitrary: xs)
  case 0
  then show ?case by simp
next
  case (Suc k)
  let ?j = "rnd (Suc k) mod (Suc k + 1)"
  have "?j < Suc k + 1" by (rule mod_less_divisor) simp
  with Suc.prems have j: "?j < length xs" by linarith
  have "mset (xs[Suc k := xs ! ?j, ?j := xs ! Suc k]) = mset xs"
    using Suc.prems j by (simp add: mset_swap)
  moreover have "k < length (xs[Suc k := xs ! ?j, ?j := xs ! Suc k])"
    using Suc.prems by simp
  ultimately show ?case using Suc.IH by (simp add: Let_def)
qed

text \<open>Whatever the draws, the shuffled deck holds the cards it was given.\<close>

lemma shuffleDeck_mset: "mset (shuffleDeck rnd xs) = mset xs"
proof (cases xs)
  case Nil
  then show ?thesis by (simp add: shuffleDeck_def)
next
  case (Cons a list)
  then show ?thesis by (simp add: shuffleDeck_def shuffleLoop_mset)
qed

lemma shuffleDeck_length: "length (shuffleDeck rnd xs) = length xs"
  by (simp add: shuffleDeck_def)

lemma calculateScore_from:
  "foldl (\<lambda>acc c.
        if card_type c = WILD then acc + 25
        else if card_type c = SKIP then acc + 15
        else if card_value c \<ge> 10 then acc + 10
        else acc + 5) a cards = a + sum_list (map cardPenalty cards)"
  by (induction cards arbitrary: a) (auto simp: cardPenalty_def split: CardType.splits)

lemma calculateScore_sum: "calculateScore cards = sum_list (map cardPenalty cards)"
  by (simp add: calculateScore_def calculateScore_from)

subsection \<open>The deck\<close>

lemma createDeck_length: "length createDeck = 108"
  by code_simp

lemma createDeck_numbers:
  "list_all (\<lambda>color. list_all (\<lambda>v.
      length (filter (\<lambda>c. card_type c = NUMBER \<and> card_color c = color \<and> card_value c = v)
                createDeck) = 2) [1..12]) [RED, BLUE, GREEN, YELLOW]"
  by code_simp

lemma createDeck_kinds:
  "length (filter (\<lambda>c. card_type c = NUMBER) createDeck) = 96
   \<and> length (filter (\<lambda>c. card_type c = WILD) createDeck) = 8
   \<and> length (filter (\<lambda>c. card_type c = SKIP) createDeck) = 4"
  by code_simp

lemma createDeck_ids: "distinct (map card_id createDeck)"
  by code_simp

text \<open>
  Claim C3: \<^const>\<open>createDeck\<close> is a list of exactly 108 cards; for each of the four
  playable colours and each value from 1 to 12 it holds exactly two number cards of that
  colour and value, which makes 96 number cards; it holds 8 wild cards and 4 skip cards;
  and no two of its cards have the same id.
\<close>

theorem createDeck_composition:
  "length createDeck = 108
   \<and> list_all (\<lambda>color. list_all (\<lambda>v.
        length (filter (\<lambda>c. card_type c = NUMBER \<and> card_color c = color \<and> card_value c = v)
                  createDeck) = 2) [1..12]) [RED, BLUE, GREEN, YELLOW]
   \<and> length (filter (\<lambda>c. card_type c = NUMBER) createDeck) = 96
   \<and> length (filter (\<lambda>c. card_type c = WILD) createDeck) = 8
   \<and> length (filter (\<lambda>c. card_type c = SKIP) createDeck) = 4
   \<and> distinct (map card_id createDeck)"
  using createDeck_length createDeck_numbers createDeck_kinds createDeck_ids by blast

subsection \<open>Drawing from an empty deck\<close>

text \<open>
  Claim C4: \<^const>\<open>handleDraw\<close> with \<open>fromDiscard = false\<close> on an empty deck, run
  where the draw is carried out (not on a client mirror, which only forwards the intent to
  the host, and not as the ignored call for a computer player's turn in a single-process
  game). With at most one card on the discard pile the state stays as it is but for the
  notice that deck and discard pile are exhausted. With two or more, the new deck is a
  rearrangement of all discard cards but the top one, the discard pile becomes the top card
  alone, and the current player receives the last card of the new deck, which leaves the
  deck; the turn moves to \<open>ACTION\<close>.
\<close>

theorem handleDraw_empty_deck:
  assumes host: "\<not> (isMultiplayer s \<and> \<not> isHost s)"
    and cur: "currentPlayerIndex s < length (players s)"
    and acts: "\<not> (\<not> isHuman (players s ! currentPlayerIndex s) \<and> timeLeft s > 0
                 \<and> \<not> isMultiplayer s)"
    and empty: "deck s = []"
  shows "(length (discardPile s) \<le> 1 \<longrightarrow>
           handleDraw rnd False s =
             Inr (s\<lparr>notification := ''Deck empty and no discard to shuffle. Game Draw.''\<rparr>))
       \<and> (length (discardPile s) \<ge> 2 \<longrightarrow>
            (let top = last (discardPile s);
                 newDeck = shuffleDeck rnd (butlast (discardPile s));
                 player = players s ! currentPlayerIndex s
             in mset newDeck = mset (butlast (discardPile s)) \<and> newDeck \<noteq> [] \<and>
                handleDraw rnd False s =
                  Inr (s\<lparr>deck := butlast newDeck, discardPile := [top],
                         players := (players s)[currentPlayerIndex s :=
                                       player\<lparr>hand := hand player @ [last newDeck]\<rparr>],
                         turnPhase := ACTION\<rparr>)))"
proof (intro conjI impI)
  assume "length (discardPile s) \<le> 1"
  with assms show "handleDraw rnd False s =
             Inr (s\<lparr>notification := ''Deck empty and no discard to shuffle. Game Draw.''\<rparr>)"
    by (auto simp: handleDraw_def Let_def)
next
  assume two: "length (discardPile s) \<ge> 2"
  let ?newDeck = "shuffleDeck rnd (butlast (discardPile s))"
  have "length ?newDeck = length (discardPile s) - 1"
    by (simp add: shuffleDeck_length)
  with two have ne: "?newDeck \<noteq> []" by auto
  have hd: "handleDraw rnd False s =
     Inr (finishDraw s (players s ! currentPlayerIndex s) (last ?newDeck) (butlast ?newDeck)
            [last (discardPile s)])"
    using assms two by (auto simp: handleDraw_def Let_def)
  show "let top = last (discardPile s);
            newDeck = shuffleDeck rnd (butlast (discardPile s));
            player = players s ! currentPlayerIndex s
        in mset newDeck = mset (butlast (discardPile s)) \<and> newDeck \<noteq> [] \<and>
           handleDraw rnd False s =
             Inr (s\<lparr>deck := butlast newDeck, discardPile := [top],
                    players := (players s)[currentPlayerIndex s :=
                                  player\<lparr>hand := hand player @ [last newDeck]\<rparr>],
                    turnPhase := ACTION\<rparr>)"
    unfolding Let_def using ne hd by (simp add: shuffleDeck_mset finishDraw_def Let_def)
qed

theorem handleDraw_empty_deck_witness:
  "handleDraw (\<lambda>i. 0) False (lateRound\<lparr>discardPile := [redCard ''card-2'' 3 ''3'']\<rparr>) =
     Inr (lateRound\<lparr>discardPile := [redCard ''card-2'' 3 ''3''],
            notification := ''Deck empty and no discard to shuffle. Game Draw.''\<rparr>)
   \<and> handleDraw (\<lambda>i. 0) False lateRound =
     Inr (lateRound\<lparr>deck := [redCard ''card-1'' 2 ''2''],
            discardPile := [redCard ''card-2'' 3 ''3''],
            players := (players lateRound)[0 :=
               (players lateRound ! 0)\<lparr>hand :=
                  [redCard ''card-4'' 5 ''5'', skipCard, redCard ''card-0'' 1 ''1'']\<rparr>],
            turnPhase := ACTION\<rparr>)"
  using handleDraw_empty_deck
          [of "lateRound\<lparr>discardPile := [redCard ''card-2'' 3 ''3'']\<rparr>" "\<lambda>i. 0"]
    handleDraw_empty_deck [of lateRound "\<lambda>i. 0"]
  by (simp add: lateRound_def shuffleDeck_def Let_def)

subsection \<open>Discarding a skip card\<close>

text \<open>
  Claim C5: when the current player discards a skip card with \<^const>\<open>performDiscard\<close>
  and keeps at least one card, the call succeeds, the current-player index becomes the old
  index plus 2 modulo the number of players, the turn sub-phase becomes \<open>DRAW\<close>, the
  coarse game state is not touched, and the player right after the discarder has
  \<open>isSkipped = true\<close>. The skip is applied once: the index formula does not look at
  any \<open>isSkipped\<close> flag, and every player other than the one skipped is as before, the
  discarder but for the new hand.
\<close>

theorem performDiscard_skip:
  assumes cur: "currentPlayerIndex s < length (players s)"
    and skip: "card_type cardToDiscard = SKIP"
    and rest: "filter (\<lambda>c. card_id c \<noteq> card_id cardToDiscard) (hand player) \<noteq> []"
  shows "\<exists>t'. performDiscard s player cardToDiscard t = Inr t' \<and>
      currentPlayerIndex t' = (currentPlayerIndex s + 2) mod length (players s) \<and>
      turnPhase t' = DRAW \<and>
      gameState t' = gameState t \<and>
      length (players t') = length (players s) \<and>
      isSkipped (players t' ! ((currentPlayerIndex s + 1) mod length (players s))) = Some True \<and>
      (\<forall>i < length (players s). i \<noteq> (currentPlayerIndex s + 1) mod length (players s) \<longrightarrow>
         players t' ! i =
           (if i = currentPlayerIndex s
            then player\<lparr>hand := filter (\<lambda>c. card_id c \<noteq> card_id cardToDiscard) (hand player)\<rparr>
            else players s ! i))"
proof -
  let ?n = "length (players s)"
  have n: "0 < ?n" using cur by linarith
  have next_lt: "(currentPlayerIndex s + 1) mod ?n < ?n" using n by simp
  have two: "((currentPlayerIndex s + 1) mod ?n + 1) mod ?n = (currentPlayerIndex s + 2) mod ?n"
    by (simp add: mod_simps)
  show ?thesis
    using cur skip rest next_lt two
    by (simp add: performDiscard_def Let_def nth_list_update)
qed

theorem performDiscard_skip_witness:
  "\<exists>t'. performDiscard lateRound (players lateRound ! 0) skipCard lateRound = Inr t' \<and>
      currentPlayerIndex t' = 2 \<and> turnPhase t' = DRAW \<and> gameState t' = PLAYING \<and>
      isSkipped (players t' ! 1) = Some True \<and>
      players t' ! 2 = players lateRound ! 2 \<and> players t' ! 3 = players lateRound ! 3 \<and>
      hand (players t' ! 0) = [redCard ''card-4'' 5 ''5'']"
proof -
  have c: "currentPlayerIndex lateRound < length (players lateRound)"
    by (simp add: lateRound_def)
  have k: "card_type skipCard = SKIP"
    by (simp add: skipCard_def)
  have r: "filter (\<lambda>c. card_id c \<noteq> card_id skipCard) (hand (players lateRound ! 0)) \<noteq> []"
    by (simp add: lateRound_def skipCard_def redCard_def)
  from performDiscard_skip [OF c k r, of lateRound]
  obtain t' where t': "performDiscard lateRound (players lateRound ! 0) skipCard lateRound = Inr t'"
      "currentPlayerIndex t' = (currentPlayerIndex lateRound + 2) mod length (players lateRound)"
      "turnPhase t' = DRAW" "gameState t' = gameState lateRound"
      "isSkipped (players t' !
         ((currentPlayerIndex lateRound + 1) mod length (players lateRound))) = Some True"
      "\<forall>i < length (players lateRound).
         i \<noteq> (currentPlayerIndex lateRound + 1) mod length (players lateRound) \<longrightarrow>
         players t' ! i =
           (if i = currentPlayerIndex lateRound
            then (players lateRound ! 0)\<lparr>hand :=
                   filter (\<lambda>c. card_id c \<noteq> card_id skipCard) (hand (players lateRound ! 0))\<rparr>
            else players lateRound ! i)"
    by blast
  from t'(6) have "players t' ! 2 = players lateRound ! 2" "players t' ! 3 = players lateRound ! 3"
      "hand (players t' ! 0) = [redCard ''card-4'' 5 ''5'']"
    by (simp_all add: lateRound_def skipCard_def redCard_def)
  with t'(1-5) show ?thesis
    by (simp add: lateRound_def)
qed

subsection \<open>End of a round\<close>

text \<open>
  Claim C7: \<^const>\<open>endRound\<close> with a winner id keeps the list of players in length and
  order; every player whose id is not the winner's has the score raised by exactly the sum
  of the per-card penalties of the hand (wild 25, skip 15, number card of value 10 or more
  10, otherwise 5); the winner's score is unchanged; every player with
  \<open>hasLaidDownPhase = true\<close> has the phase index raised by one, capped at the last
  phase index; and every other player's phase index is unchanged.
\<close>

theorem endRound_scores_and_phases:
  "length (players (endRound s winnerId t)) = length (players s) \<and>
   (\<forall>i < length (players s).
      let p = players s ! i; p' = players (endRound s winnerId t) ! i
      in (player_id p \<noteq> winnerId \<longrightarrow>
            score p' = score p + sum_list (map cardPenalty (hand p))) \<and>
         (player_id p = winnerId \<longrightarrow> score p' = score p) \<and>
         (hasLaidDownPhase p \<longrightarrow>
            phaseIndex p' = min (phaseIndex p + 1) (int (length (phases s)) - 1)) \<and>
         (\<not> hasLaidDownPhase p \<longrightarrow> phaseIndex p' = phaseIndex p))"
  by (simp add: endRound_def Let_def calculateScore_sum)

theorem endRound_scores_and_phases_witness:
  "score (players (endRound lateRound ''bot-2'' lateRound) ! 0) = 20
   \<and> score (players (endRound lateRound ''bot-2'' lateRound) ! 3) = 0
   \<and> phaseIndex (players (endRound lateRound ''bot-2'' lateRound) ! 0) = 0
   \<and> phaseIndex
        (players (endRound
           (lateRound\<lparr>players := map (\<lambda>p. p\<lparr>hasLaidDownPhase := True, phaseIndex := 9\<rparr>)
                                    (players lateRound)\<rparr>) ''bot-2'' lateRound) ! 1) = 9
   \<and> phaseIndex
        (players (endRound
           (lateRound\<lparr>players := map (\<lambda>p. p\<lparr>hasLaidDownPhase := True, phaseIndex := 3\<rparr>)
                                    (players lateRound)\<rparr>) ''bot-2'' lateRound) ! 1) = 4"
proof -
  note plain = endRound_scores_and_phases
      [of lateRound "''bot-2''" lateRound, THEN conjunct2, rule_format]
  note last_phase = endRound_scores_and_phases
      [of "lateRound\<lparr>players := map (\<lambda>p. p\<lparr>hasLaidDownPhase := True, phaseIndex := 9\<rparr>)
                                    (players lateRound)\<rparr>" "''bot-2''" lateRound,
       THEN conjunct2, rule_format]
  note fourth_phase = endRound_scores_and_phases
      [of "lateRound\<lparr>players := map (\<lambda>p. p\<lparr>hasLaidDownPhase := True, phaseIndex := 3\<rparr>)
                                    (players lateRound)\<rparr>" "''bot-2''" lateRound,
       THEN conjunct2, rule_format]
  show ?thesis
    using plain [of 0] plain [of 3] last_phase [of 1] fourth_phase [of 1]
    by (simp add: lateRound_def Let_def cardPenalty_def redCard_def skipCard_def
          STANDARD_PHASES_def)
qed

subsection \<open>Card conservation and the computer player's turn\<close>

lemma hand_after_draw:
  "i < length ps \<Longrightarrow>
   mset (concat (map hand (ps[i := (ps ! i)\<lparr>hand := hand (ps ! i) @ [c]\<rparr>]))) =
   add_mset c (mset (concat (map hand ps)))"
proof (induction ps arbitrary: i)
  case Nil
  then show ?case by simp
next
  case (Cons p ps)
  then show ?case by (cases i) simp_all
qed

lemma meld_cards_after_draw:
  "map (\<lambda>p. concat (map meld_cards (melds p))) (ps[i := (ps ! i)\<lparr>hand := h\<rparr>]) =
   map (\<lambda>p. concat (map meld_cards (melds p))) ps"
proof (induction ps arbitrary: i)
  case Nil
  then show ?case by simp
next
  case (Cons p ps)
  then show ?case by (cases i) simp_all
qed

lemma cardIdsOf_cards: "mset (allCards s') = mset (allCards s) \<Longrightarrow> cardIdsOf s' = cardIdsOf s"
  by (simp add: cardIdsOf_def)

lemma finishDraw_cards:
  assumes "currentPlayerIndex s < length (players s)"
    and "add_mset c (mset newDeck + mset newDiscard) = mset (deck s) + mset (discardPile s)"
  shows "mset (allCards (finishDraw s (players s ! currentPlayerIndex s) c newDeck newDiscard)) =
         mset (allCards s)"
proof -
  have "mset (allCards (finishDraw s (players s ! currentPlayerIndex s) c newDeck newDiscard)) =
        add_mset c (mset newDeck + mset newDiscard)
        + mset (concat (map hand (players s)))
        + mset (concat (map (\<lambda>p. concat (map meld_cards (melds p))) (players s)))"
    using assms(1)
    by (simp add: allCards_def finishDraw_def Let_def hand_after_draw meld_cards_after_draw)
  also have "\<dots> = mset (allCards s)"
    unfolding assms(2) by (simp add: allCards_def)
  finally show ?thesis .
qed

lemma pop_cards: "xs \<noteq> [] \<Longrightarrow> add_mset (last xs) (mset (butlast xs)) = mset xs"
  by (induction xs) auto

lemma recycle_count:
  assumes ne: "sh \<noteq> []" and d: "dp \<noteq> []" and m: "mset sh = mset (butlast dp)"
  shows "add_mset (last sh) (mset (butlast sh) + mset [last dp]) = mset ([] :: 'a list) + mset dp"
proof -
  have "add_mset (last sh) (mset (butlast sh)) = mset (butlast dp)"
    using pop_cards [OF ne] m by simp
  moreover have "add_mset (last dp) (mset (butlast dp)) = mset dp"
    using pop_cards [OF d] .
  ultimately show ?thesis by (simp add: add_mset_commute)
qed

text \<open>
  The draw of a human player keeps the card ids on each of its paths: from the discard
  pile, from the deck, and from the deck rebuilt out of the discard pile.
\<close>

lemma handleDraw_conserves:
  assumes run: "handleDraw rnd fromDisc s = Inr s'"
  shows "cardIdsOf s' = cardIdsOf s"
proof (cases "isMultiplayer s \<and> \<not> isHost s")
  case True
  then have "handleDraw rnd fromDisc s =
      Inr (sendClientAction
             \<lparr>action = Action_DRAW, playerId = None, cardId = None, cardIds = None,
              meldId = None, fromIndex = None, toIndex = None, fromDiscard = Some fromDisc\<rparr> s)"
    unfolding handleDraw_def by (rule if_P)
  with run show ?thesis
    by (auto simp: sendClientAction_def cardIdsOf_def allCards_def)
next
  case False
  then have host: "(isMultiplayer s \<and> \<not> isHost s) = False" by simp
  show ?thesis
  proof (cases "currentPlayerIndex s < length (players s)")
    case False
    with run show ?thesis by (simp add: handleDraw_def host)
  next
    case cur: True
    let ?p = "players s ! currentPlayerIndex s"
    let ?sh = "shuffleDeck rnd (butlast (discardPile s))"
    show ?thesis
    proof (cases "\<not> isHuman ?p \<and> timeLeft s > 0 \<and> \<not> isMultiplayer s")
      case True
      then have "(\<not> isHuman ?p \<and> timeLeft s > 0 \<and> \<not> isMultiplayer s) = True" by simp
      with cur run have "s' = s" by (simp add: handleDraw_def Let_def host)
      then show ?thesis by simp
    next
      case False
      then have acts: "(\<not> isHuman ?p \<and> timeLeft s > 0 \<and> \<not> isMultiplayer s) = False"
        by simp
      show ?thesis
      proof (cases fromDisc)
        case True
        with cur run have d: "discardPile s \<noteq> []"
          by (auto simp: handleDraw_def Let_def host acts)
        show ?thesis
        proof (cases "card_type (last (discardPile s)) = SKIP")
          case True
          with cur run d \<open>fromDisc\<close>
          have "s' = s\<lparr>notification := ''Cannot pick up a Skip card!''\<rparr>"
            by (simp add: handleDraw_def Let_def host acts)
          then show ?thesis by (simp add: cardIdsOf_def allCards_def)
        next
          case False
          with cur run d \<open>fromDisc\<close>
          have "s' = finishDraw s ?p (last (discardPile s)) (deck s) (butlast (discardPile s))"
            by (simp add: handleDraw_def Let_def host acts)
          with cur d have "mset (allCards s') = mset (allCards s)"
            by (simp add: finishDraw_cards pop_cards)
          then show ?thesis by (rule cardIdsOf_cards)
        qed
      next
        case fromDeck: False
        show ?thesis
        proof (cases "deck s = []")
          case False
          with cur run fromDeck
          have "s' = finishDraw s ?p (last (deck s)) (butlast (deck s)) (discardPile s)"
            by (simp add: handleDraw_def Let_def host acts)
          with cur False have "mset (allCards s') = mset (allCards s)"
            by (simp add: finishDraw_cards pop_cards)
          then show ?thesis by (rule cardIdsOf_cards)
        next
          case empty: True
          show ?thesis
          proof (cases "length (discardPile s) \<le> 1")
            case True
            with cur run fromDeck empty
            have "s' = s\<lparr>notification := ''Deck empty and no discard to shuffle. Game Draw.''\<rparr>"
              by (simp add: handleDraw_def Let_def host acts)
            then show ?thesis by (simp add: cardIdsOf_def allCards_def)
          next
            case False
            with cur run fromDeck empty
            have s': "s' = finishDraw s ?p (last ?sh) (butlast ?sh) [last (discardPile s)]"
              by (simp add: handleDraw_def Let_def host acts)
            have "length ?sh = length (discardPile s) - 1"
              by (simp add: shuffleDeck_length)
            with False have ne: "?sh \<noteq> []" by auto
            have d: "discardPile s \<noteq> []" using False by auto
            have "add_mset (last ?sh) (mset (butlast ?sh) + mset [last (discardPile s)]) =
                  mset (deck s) + mset (discardPile s)"
              using recycle_count [OF ne d shuffleDeck_mset] empty by simp
            with cur s' have "mset (allCards s') = mset (allCards s)"
              by (simp only: finishDraw_cards)
            then show ?thesis by (rule cardIdsOf_cards)
          qed
        qed
      qed
    qed
  qed
qed

text \<open>
  Claim C1 asks that every step of a round in \<open>PLAYING\<close> keeps the multiset of card ids
  over deck, discard pile, hands and melds. The draw of a human player does
  (\<open>handleDraw_conserves\<close>); the turn of a computer player does not, on its recycle path.
  In \<^const>\<open>lateRound\<close> with the first computer player to move, the deck is empty and the
  discard pile holds the cards 0, 1 and 2. \<^verbatim>\<open>botPlayTurn\<close> shuffles the cards 0 and 1
  into a new deck and draws card 0, but never stores the shortened discard pile, as
  \<^verbatim>\<open>handleDraw\<close> does; \<^verbatim>\<open>performDiscard\<close> then appends the discarded card 3 to the
  discard pile as it was before the turn. Afterwards card 1 lies in the deck and on the
  discard pile, and card 0 is in the hand and on the discard pile: the ids are no longer
  those of the round.
\<close>

theorem botPlayTurn_recycle_duplicates_cards:
  "case botPlayTurn (\<lambda>i. 0) 0 0 (lateRound\<lparr>currentPlayerIndex := 1\<rparr>) (players lateRound ! 1) of
     Inl e \<Rightarrow> False
   | Inr s' \<Rightarrow>
       gameState s' = PLAYING \<and>
       map card_id (deck s') = [''card-1''] \<and>
       map card_id (discardPile s') = [''card-0'', ''card-1'', ''card-2'', ''card-3''] \<and>
       map (\<lambda>p. map card_id (hand p)) (players s') =
         [[''card-4'', ''card-104''], [''card-0''], [''card-5''], [''card-6'']] \<and>
       map melds (players s') = [[], [], [], []] \<and>
       count (cardIdsOf (lateRound\<lparr>currentPlayerIndex := 1\<rparr>)) ''card-1'' = 1 \<and>
       count (cardIdsOf s') ''card-1'' = 2 \<and>
       cardIdsOf s' \<noteq> cardIdsOf (lateRound\<lparr>currentPlayerIndex := 1\<rparr>)"
  by code_simp

end
